theory Spec2Isabelle
  imports Main "HOL-Library.Sublist" "HOL-Library.Multiset"
begin

section \<open>Data model\<close>

text \<open>
  \<^verbatim>\<open>time.Duration\<close> counts nanoseconds. The reconciler only passes compile-time
  constants and the caller's value through to the resource manager and never computes
  with durations at run time, so unbounded integers model them without loss.
\<close>

type_synonym duration = int

definition Second :: duration where
  "Second = 1000000000"

definition Minute :: duration where
  "Minute = 60 * Second"

definition DefaultTimeout :: duration where
  "DefaultTimeout = 5 * Minute"

text \<open>
  Go errors: \<^verbatim>\<open>fmt.Errorf("msg")\<close> is \<open>Errorf\<close>, \<^verbatim>\<open>fmt.Errorf("msg: %w", err)\<close>
  is \<open>Wrapf\<close>. Errors of the collaborators are arbitrary values of this type. The run-time
  panic of dereferencing a nil \<^verbatim>\<open>*time.Duration\<close> is \<open>NilDereference\<close>.
\<close>

datatype error = Errorf string | Wrapf string error | NilDereference

text \<open>
  \<^verbatim>\<open>unstructured.Unstructured\<close>: the fields the reconciler reads and writes through
  the accessors (group, version and kind of \<^verbatim>\<open>GroupVersionKind()\<close>, \<^verbatim>\<open>GetNamespace()\<close>,
  \<^verbatim>\<open>GetName()\<close>), and the rest of the object's content.
\<close>

record Unstructured =
  uGroup :: string
  uVersion :: string
  uKind :: string
  uNamespace :: string
  uName :: string
  uContent :: "(string \<times> string) list"

record GroupKind =
  Group :: string
  Kind :: string

record ObjMetadata =
  Namespace :: string
  Name :: string
  GroupKind :: GroupKind

record InventoryItem =
  ObjMetadata :: ObjMetadata
  GroupVersion :: string

record Inventory =
  Items :: "InventoryItem list"

record ApplyOpts =
  WaitTimeout :: "duration option"
  SkipWait :: bool

record DeleteOpts =
  WaitTimeout :: "duration option"
  SkipWait :: bool

record WaitOptions =
  Interval :: duration
  Timeout :: duration

datatype DeletionPropagation =
  DeletePropagationOrphan | DeletePropagationBackground | DeletePropagationForeground

record DeleteOptions =
  PropagationPolicy :: DeletionPropagation

section \<open>External collaborators\<close>

text \<open>
  The library functions the repository calls and does not define: the object decoder
  \<^verbatim>\<open>ssautils.ReadObjects\<close>, \<^verbatim>\<open>normalize.UnstructuredList\<close> (it rewrites the decoded
  objects in place, or fails), the classification predicate \<^verbatim>\<open>ssautils.IsClusterDefinition\<close>
  and \<^verbatim>\<open>ObjMetadata.String\<close>. They are parameters of the model.
\<close>

record Libs =
  ReadObjects :: "string \<Rightarrow> error + Unstructured list"
  UnstructuredList :: "Unstructured list \<Rightarrow> error + Unstructured list"
  IsClusterDefinition :: "Unstructured \<Rightarrow> bool"
  ObjMetadataString :: "ObjMetadata \<Rightarrow> string"

text \<open>
  \<^verbatim>\<open>ssa.ResourceManager\<close>: four operations on a cluster of state \<open>'s\<close>, each returning
  an error or none, and the cluster's next state.
\<close>

record 's ResourceManager =
  ApplyAll :: "Unstructured list \<Rightarrow> 's \<Rightarrow> error option \<times> 's"
  Wait :: "Unstructured list \<Rightarrow> WaitOptions \<Rightarrow> 's \<Rightarrow> error option \<times> 's"
  DeleteAll :: "Unstructured list \<Rightarrow> DeleteOptions \<Rightarrow> 's \<Rightarrow> error option \<times> 's"
  WaitForTermination :: "Unstructured list \<Rightarrow> WaitOptions \<Rightarrow> 's \<Rightarrow> error option \<times> 's"

text \<open>The calls a reconciler issues to its resource manager, with their arguments.\<close>

datatype call =
  CallApplyAll "Unstructured list"
| CallWait "Unstructured list" WaitOptions
| CallDeleteAll "Unstructured list" DeleteOptions
| CallWaitForTermination "Unstructured list" WaitOptions

text \<open>
  The world a reconciler acts on: the cluster behind the resource manager, the calls
  issued so far (oldest first), and the state of the logging sink.
\<close>

record ('s, 'l) world =
  cluster :: 's
  calls :: "call list"
  sink :: 'l

record ('s, 'l) Reconciler =
  mgr :: "'s ResourceManager"
  logFunc :: "(string \<Rightarrow> 'l \<Rightarrow> 'l) option"

section \<open>set.go\<close>

record 'a set_t =
  data :: "'a \<rightharpoonup> unit"

definition Add :: "'a set_t \<Rightarrow> 'a list \<Rightarrow> 'a set_t" where
  "Add s items = s\<lparr>data := fold (\<lambda>i m. m(i \<mapsto> ())) items (data s)\<rparr>"

definition Remove :: "'a set_t \<Rightarrow> 'a list \<Rightarrow> 'a set_t" where
  "Remove s items = s\<lparr>data := fold (\<lambda>i m. m(i := None)) items (data s)\<rparr>"

definition Contains :: "'a set_t \<Rightarrow> 'a \<Rightarrow> bool" where
  "Contains s item = (case data s item of Some _ \<Rightarrow> True | None \<Rightarrow> False)"

definition newSet :: "'a list \<Rightarrow> 'a set_t" where
  "newSet items = Add \<lparr>data = Map.empty\<rparr> items"

section \<open>inventory.go\<close>

definition ID :: "Libs \<Rightarrow> InventoryItem \<Rightarrow> string" where
  "ID L i = ObjMetadataString L (ObjMetadata i)"

text \<open>\<^verbatim>\<open>object.UnstructuredToObjMetadata\<close> reads namespace, name, group and kind.\<close>

definition UnstructuredToObjMetadata :: "Unstructured \<Rightarrow> ObjMetadata" where
  "UnstructuredToObjMetadata obj =
     \<lparr>Namespace = uNamespace obj, Name = uName obj,
      GroupKind = \<lparr>Group = uGroup obj, Kind = uKind obj\<rparr>\<rparr>"

definition toInventoryItem :: "Unstructured \<Rightarrow> InventoryItem" where
  "toInventoryItem obj =
     \<lparr>ObjMetadata = UnstructuredToObjMetadata obj, GroupVersion = uVersion obj\<rparr>"

text \<open>
  The object built in the body of the loop of \<^verbatim>\<open>ItemsToRemove\<close>: an empty
  \<^verbatim>\<open>Unstructured\<close> with group, version, kind, name and namespace set.
\<close>

definition removalRef :: "InventoryItem \<Rightarrow> Unstructured" where
  "removalRef i =
     \<lparr>uGroup = Group (GroupKind (ObjMetadata i)),
      uVersion = GroupVersion i,
      uKind = Kind (GroupKind (ObjMetadata i)),
      uNamespace = Namespace (ObjMetadata i),
      uName = Name (ObjMetadata i),
      uContent = []\<rparr>"

text \<open>The loop of \<^verbatim>\<open>ItemsToRemove\<close> over the receiver's items, appending to \<open>toRemove\<close>.\<close>

fun ItemsToRemove_loop ::
  "Libs \<Rightarrow> string set_t \<Rightarrow> InventoryItem list \<Rightarrow> Unstructured list \<Rightarrow> Unstructured list" where
  "ItemsToRemove_loop L newS [] toRemove = toRemove"
| "ItemsToRemove_loop L newS (i # rest) toRemove =
     (if \<not> Contains newS (ID L i)
      then ItemsToRemove_loop L newS rest (toRemove @ [removalRef i])
      else ItemsToRemove_loop L newS rest toRemove)"

definition ItemsToRemove :: "Libs \<Rightarrow> Inventory \<Rightarrow> Inventory \<Rightarrow> Unstructured list" where
  "ItemsToRemove L i newInv =
     (let newS = newSet (map (ID L) (Items newInv))
      in ItemsToRemove_loop L newS (Items i) [])"

section \<open>reconciler.go\<close>

definition GetObjects :: "Libs \<Rightarrow> string \<Rightarrow> Unstructured list \<times> error option" where
  "GetObjects L yaml =
     (case ReadObjects L yaml of
        Inl err \<Rightarrow> ([], Some (Wrapf ''error decoding yaml to unstructured'' err))
      | Inr allObjects \<Rightarrow> (allObjects, None))"

text \<open>The classification loop of \<^verbatim>\<open>getResourceStages\<close>.\<close>

fun stages_loop ::
  "Libs \<Rightarrow> Unstructured list \<Rightarrow> Unstructured list \<Rightarrow> Unstructured list
     \<Rightarrow> Unstructured list \<times> Unstructured list" where
  "stages_loop L [] stageOne stageTwo = (stageOne, stageTwo)"
| "stages_loop L (obj # rest) stageOne stageTwo =
     (if IsClusterDefinition L obj
      then stages_loop L rest (stageOne @ [obj]) stageTwo
      else stages_loop L rest stageOne (stageTwo @ [obj]))"

definition getResourceStages ::
  "Libs \<Rightarrow> string \<Rightarrow> Unstructured list \<times> Unstructured list \<times> error option" where
  "getResourceStages L yaml =
     (case GetObjects L yaml of
        (allObjects, Some err) \<Rightarrow>
          ([], [], Some (Wrapf ''error decoding yaml to unstructured'' err))
      | (allObjects, None) \<Rightarrow>
          (case UnstructuredList L allObjects of
             Inl err \<Rightarrow> ([], [], Some (Wrapf ''error setting defaults'' err))
           | Inr normalized \<Rightarrow>
               (case stages_loop L normalized [] [] of
                  (stageOne, stageTwo) \<Rightarrow> (stageOne, stageTwo, None))))"

definition log :: "('s, 'l) Reconciler \<Rightarrow> string \<Rightarrow> ('s, 'l) world \<Rightarrow> ('s, 'l) world" where
  "log r msg w = (case logFunc r of None \<Rightarrow> w | Some f \<Rightarrow> w\<lparr>sink := f msg (sink w)\<rparr>)"

text \<open>A call of the resource manager: the cluster moves on and the call is recorded.\<close>

definition mgrApplyAll ::
  "('s, 'l) Reconciler \<Rightarrow> Unstructured list \<Rightarrow> ('s, 'l) world \<Rightarrow> error option \<times> ('s, 'l) world" where
  "mgrApplyAll r objs w =
     (case ApplyAll (mgr r) objs (cluster w) of
        (err, c) \<Rightarrow> (err, w\<lparr>cluster := c, calls := calls w @ [CallApplyAll objs]\<rparr>))"

definition mgrWait ::
  "('s, 'l) Reconciler \<Rightarrow> Unstructured list \<Rightarrow> WaitOptions \<Rightarrow> ('s, 'l) world
     \<Rightarrow> error option \<times> ('s, 'l) world" where
  "mgrWait r objs wo w =
     (case Wait (mgr r) objs wo (cluster w) of
        (err, c) \<Rightarrow> (err, w\<lparr>cluster := c, calls := calls w @ [CallWait objs wo]\<rparr>))"

definition mgrDeleteAll ::
  "('s, 'l) Reconciler \<Rightarrow> Unstructured list \<Rightarrow> DeleteOptions \<Rightarrow> ('s, 'l) world
     \<Rightarrow> error option \<times> ('s, 'l) world" where
  "mgrDeleteAll r objs dopt w =
     (case DeleteAll (mgr r) objs dopt (cluster w) of
        (err, c) \<Rightarrow> (err, w\<lparr>cluster := c, calls := calls w @ [CallDeleteAll objs dopt]\<rparr>))"

definition mgrWaitForTermination ::
  "('s, 'l) Reconciler \<Rightarrow> Unstructured list \<Rightarrow> WaitOptions \<Rightarrow> ('s, 'l) world
     \<Rightarrow> error option \<times> ('s, 'l) world" where
  "mgrWaitForTermination r objs wo w =
     (case WaitForTermination (mgr r) objs wo (cluster w) of
        (err, c) \<Rightarrow> (err, w\<lparr>cluster := c, calls := calls w @ [CallWaitForTermination objs wo]\<rparr>))"

text \<open>
  \<^verbatim>\<open>delete\<close>. The result of \<^verbatim>\<open>WaitForTermination\<close> is assigned to \<open>err\<close> and the
  function then returns nil.
\<close>

definition delete ::
  "('s, 'l) Reconciler \<Rightarrow> Unstructured list \<Rightarrow> DeleteOpts \<Rightarrow> ('s, 'l) world
     \<Rightarrow> error option \<times> ('s, 'l) world" where
  "delete r items opts0 w0 =
     (let opts = (if DeleteOpts.WaitTimeout opts0 = None
                  then opts0\<lparr>DeleteOpts.WaitTimeout := Some DefaultTimeout\<rparr> else opts0);
          w1 = log r ''beginning delete of resources'' w0
      in case mgrDeleteAll r items \<lparr>PropagationPolicy = DeletePropagationForeground\<rparr> w1 of
           (Some err, w2) \<Rightarrow> (Some (Wrapf ''error during deletion'' err), w2)
         | (None, w2) \<Rightarrow>
             if \<not> DeleteOpts.SkipWait opts then
               (let w3 = log r ''waiting for resources to terminate'' w2
                in case DeleteOpts.WaitTimeout opts of
                     None \<Rightarrow> (Some NilDereference, w3)
                   | Some t \<Rightarrow>
                       (case mgrWaitForTermination r items
                               \<lparr>Interval = 2 * Second, Timeout = t\<rparr> w3 of
                          (err, w4) \<Rightarrow> (None, w4)))
             else (None, w2))"

definition Delete ::
  "Libs \<Rightarrow> ('s, 'l) Reconciler \<Rightarrow> string \<Rightarrow> DeleteOpts \<Rightarrow> ('s, 'l) world
     \<Rightarrow> error option \<times> ('s, 'l) world" where
  "Delete L r yaml opts w =
     (case GetObjects L yaml of
        (allObjects, Some err) \<Rightarrow> (Some (Wrapf ''error decoding yaml to unstructured'' err), w)
      | (allObjects, None) \<Rightarrow> delete r allObjects opts w)"

definition removeItems ::
  "Libs \<Rightarrow> ('s, 'l) Reconciler \<Rightarrow> Inventory \<Rightarrow> Inventory \<Rightarrow> ApplyOpts \<Rightarrow> ('s, 'l) world
     \<Rightarrow> error option \<times> ('s, 'l) world" where
  "removeItems L r previousInventory newInventory opts w =
     (let toRemove = ItemsToRemove L previousInventory newInventory
      in if length toRemove = 0 then (None, w)
         else delete r toRemove
                \<lparr>DeleteOpts.WaitTimeout = ApplyOpts.WaitTimeout opts,
                 DeleteOpts.SkipWait = ApplyOpts.SkipWait opts\<rparr>
                (log r ''pruning resources'' w))"

text \<open>
  The last statements of \<^verbatim>\<open>Reconcile\<close> (the pruning phase and the final return), which
  both branches of the test of \<^verbatim>\<open>opts.SkipWait\<close> reach.
\<close>

definition Reconcile_prune ::
  "Libs \<Rightarrow> ('s, 'l) Reconciler \<Rightarrow> Inventory option \<Rightarrow> Inventory \<Rightarrow> ApplyOpts \<Rightarrow> ('s, 'l) world
     \<Rightarrow> (Inventory \<times> error option) \<times> ('s, 'l) world" where
  "Reconcile_prune L r previousInventory inventory opts w =
     (case previousInventory of
        Some prev \<Rightarrow>
          (case removeItems L r prev inventory opts w of
             (Some err, w') \<Rightarrow> ((\<lparr>Items = []\<rparr>, Some (Wrapf ''error pruning items'' err)), w')
           | (None, w') \<Rightarrow> ((inventory, None), w'))
      | None \<Rightarrow> ((inventory, None), w))"

definition Reconcile ::
  "Libs \<Rightarrow> ('s, 'l) Reconciler \<Rightarrow> string \<Rightarrow> ApplyOpts \<Rightarrow> Inventory option \<Rightarrow> ('s, 'l) world
     \<Rightarrow> (Inventory \<times> error option) \<times> ('s, 'l) world" where
  "Reconcile L r yaml opts0 previousInventory w0 =
     (let opts = (if ApplyOpts.WaitTimeout opts0 = None
                  then opts0\<lparr>ApplyOpts.WaitTimeout := Some DefaultTimeout\<rparr> else opts0)
      in case getResourceStages L yaml of
           (stageOne, stageTwo, Some err) \<Rightarrow>
             ((\<lparr>Items = []\<rparr>, Some (Wrapf ''error getting resource stages'' err)), w0)
         | (stageOne, stageTwo, None) \<Rightarrow>
             (let inventory = \<lparr>Items = [] @ map toInventoryItem stageOne\<rparr>;
                  inventory = inventory\<lparr>Items := Items inventory @ map toInventoryItem stageTwo\<rparr>;
                  w1 = log r ''beginning apply of stage one resources'' w0
              in case mgrApplyAll r stageOne w1 of
                   (Some err, w2) \<Rightarrow>
                     ((\<lparr>Items = []\<rparr>, Some (Wrapf ''error applying stage one resources'' err)), w2)
                 | (None, w2) \<Rightarrow>
                     (let w3 = log r ''waiting for stage one resources to reconcile'' w2
                      in case mgrWait r stageOne
                                \<lparr>Interval = 2 * Second, Timeout = 30 * Second\<rparr> w3 of
                           (Some err, w4) \<Rightarrow>
                             ((\<lparr>Items = []\<rparr>,
                               Some (Errorf ''timed out waiting for objects to reconcile'')), w4)
                         | (None, w4) \<Rightarrow>
                             (let w5 = log r ''beginning apply of stage two resources'' w4
                              in case mgrApplyAll r stageTwo w5 of
                                   (Some err, w6) \<Rightarrow>
                                     ((\<lparr>Items = []\<rparr>,
                                       Some (Wrapf ''error applying stage two resources'' err)), w6)
                                 | (None, w6) \<Rightarrow>
                                     if \<not> ApplyOpts.SkipWait opts then
                                       (let w7 = log r ''waiting for stage two resources to reconcile'' w6
                                        in case ApplyOpts.WaitTimeout opts of
                                             None \<Rightarrow> ((\<lparr>Items = []\<rparr>, Some NilDereference), w7)
                                           | Some t \<Rightarrow>
                                               (case mgrWait r stageTwo
                                                       \<lparr>Interval = 2 * Second, Timeout = t\<rparr> w7 of
                                                  (Some err, w8) \<Rightarrow>
                                                    ((\<lparr>Items = []\<rparr>,
                                                      Some (Errorf ''timed out waiting for objects to reconcile'')), w8)
                                                | (None, w8) \<Rightarrow>
                                                    Reconcile_prune L r previousInventory inventory opts w8))
                                     else Reconcile_prune L r previousInventory inventory opts w6))))"

definition Apply ::
  "Libs \<Rightarrow> ('s, 'l) Reconciler \<Rightarrow> string \<Rightarrow> ApplyOpts \<Rightarrow> ('s, 'l) world
     \<Rightarrow> (Inventory \<times> error option) \<times> ('s, 'l) world" where
  "Apply L r yaml opts w = Reconcile L r yaml opts None w"

section \<open>Observing a run\<close>

text \<open>The calls issued between world \<open>w\<close> and a later world \<open>w'\<close>.\<close>

definition issued :: "('s, 'l) world \<Rightarrow> ('s, 'l) world \<Rightarrow> call list" where
  "issued w w' = drop (length (calls w)) (calls w')"

text \<open>The two kinds of waiting call, and the two kinds of call of the pruning phase.\<close>

fun isWaitingCall :: "call \<Rightarrow> bool" where
  "isWaitingCall (CallWait objs wo) = True"
| "isWaitingCall (CallWaitForTermination objs wo) = True"
| "isWaitingCall c = False"

fun isDeletionCall :: "call \<Rightarrow> bool" where
  "isDeletionCall (CallDeleteAll objs dopt) = True"
| "isDeletionCall (CallWaitForTermination objs wo) = True"
| "isDeletionCall c = False"

text \<open>The resources a call applies; the combined apply sequence of a list of calls.\<close>

fun applied :: "call \<Rightarrow> Unstructured list" where
  "applied (CallApplyAll objs) = objs"
| "applied c = []"

definition applySequence :: "call list \<Rightarrow> Unstructured list" where
  "applySequence cs = concat (map applied cs)"

text \<open>
  The calls of a run in which every call succeeds, as a function of the options, the
  previous inventory and the two stages: the pruning phase on the new inventory \<open>iv\<close>,
  and the whole run.
\<close>

definition plannedPrune :: "Libs \<Rightarrow> ApplyOpts \<Rightarrow> Inventory option \<Rightarrow> Inventory \<Rightarrow> call list" where
  "plannedPrune L opts prev iv =
     (case prev of
        None \<Rightarrow> []
      | Some p \<Rightarrow>
          (if ItemsToRemove L p iv = [] then []
           else CallDeleteAll (ItemsToRemove L p iv) \<lparr>PropagationPolicy = DeletePropagationForeground\<rparr> #
             (if ApplyOpts.SkipWait opts then []
              else [CallWaitForTermination (ItemsToRemove L p iv)
                     \<lparr>Interval = 2 * Second,
                      Timeout = (case ApplyOpts.WaitTimeout opts of None \<Rightarrow> DefaultTimeout | Some t \<Rightarrow> t)\<rparr>])))"

definition plannedCalls ::
  "Libs \<Rightarrow> ApplyOpts \<Rightarrow> Inventory option \<Rightarrow> Unstructured list \<Rightarrow> Unstructured list \<Rightarrow> call list" where
  "plannedCalls L opts prev s1 s2 =
     [CallApplyAll s1, CallWait s1 \<lparr>Interval = 2 * Second, Timeout = 30 * Second\<rparr>, CallApplyAll s2]
     @ (if ApplyOpts.SkipWait opts then []
        else [CallWait s2
                \<lparr>Interval = 2 * Second,
                 Timeout = (case ApplyOpts.WaitTimeout opts of None \<Rightarrow> DefaultTimeout | Some t \<Rightarrow> t)\<rparr>])
     @ plannedPrune L opts prev \<lparr>Items = map toInventoryItem (s1 @ s2)\<rparr>"

section \<open>A concrete decoder, cluster and reconciler\<close>

text \<open>
  A toy declaration language for concrete runs: every character of the text is one
  document; \<open>N\<close> declares the namespace \<open>ns\<close>, \<open>!\<close> is malformed, and any other
  character \<open>c\<close> declares the ConfigMap named \<open>c\<close> in \<open>ns\<close>. Normalisation changes
  nothing, namespaces and custom resource definitions are the cluster definitions, and
  identities are printed as namespace, name, group and kind joined by underscores.
\<close>

definition exampleObject :: "char \<Rightarrow> Unstructured" where
  "exampleObject c =
     (if c = CHR ''N''
      then \<lparr>uGroup = '''', uVersion = ''v1'', uKind = ''Namespace'', uNamespace = '''',
            uName = ''ns'', uContent = []\<rparr>
      else \<lparr>uGroup = '''', uVersion = ''v1'', uKind = ''ConfigMap'', uNamespace = ''ns'',
            uName = [c], uContent = []\<rparr>)"

definition exampleLibs :: Libs where
  "exampleLibs =
     \<lparr>ReadObjects =
        (\<lambda>yaml. if CHR ''!'' \<in> set yaml then Inl (Errorf ''bad document'')
                else Inr (map exampleObject yaml)),
      UnstructuredList = Inr,
      IsClusterDefinition =
        (\<lambda>obj. uKind obj = ''Namespace'' \<or> uKind obj = ''CustomResourceDefinition''),
      ObjMetadataString =
        (\<lambda>m. Namespace m @ ''_'' @ Name m @ ''_'' @ Group (GroupKind m) @ ''_'' @ Kind (GroupKind m))\<rparr>"

text \<open>A resource manager every operation of which succeeds, on a cluster without state.\<close>

definition exampleManager :: "unit ResourceManager" where
  "exampleManager =
     \<lparr>ApplyAll = (\<lambda>objs s. (None, s)),
      Wait = (\<lambda>objs wo s. (None, s)),
      DeleteAll = (\<lambda>objs dopt s. (None, s)),
      WaitForTermination = (\<lambda>objs wo s. (None, s))\<rparr>"

text \<open>The same manager, on a cluster whose deleted resources never finish terminating.\<close>

definition stuckManager :: "unit ResourceManager" where
  "stuckManager =
     exampleManager\<lparr>WaitForTermination := (\<lambda>objs wo s. (Some (Errorf ''timeout''), s))\<rparr>"

text \<open>The same manager, on a cluster that rejects every apply.\<close>

definition rejectingManager :: "unit ResourceManager" where
  "rejectingManager =
     exampleManager\<lparr>ApplyAll := (\<lambda>objs s. (Some (Errorf ''rejected''), s))\<rparr>"

text \<open>The same manager, on a cluster whose ConfigMaps never converge.\<close>

definition slowManager :: "unit ResourceManager" where
  "slowManager =
     exampleManager\<lparr>Wait := (\<lambda>objs wo s.
        if list_ex (\<lambda>obj. uKind obj = ''ConfigMap'') objs
        then (Some (Errorf ''not ready''), s) else (None, s))\<rparr>"

definition exampleReconciler :: "unit ResourceManager \<Rightarrow> (unit, string list) Reconciler" where
  "exampleReconciler m = \<lparr>mgr = m, logFunc = Some (\<lambda>msg l. l @ [msg])\<rparr>"

definition emptyWorld :: "(unit, string list) world" where
  "emptyWorld = \<lparr>cluster = (), calls = [], sink = []\<rparr>"

definition defaultApplyOpts :: ApplyOpts where
  "defaultApplyOpts = \<lparr>ApplyOpts.WaitTimeout = None, ApplyOpts.SkipWait = False\<rparr>"

definition defaultDeleteOpts :: DeleteOpts where
  "defaultDeleteOpts = \<lparr>DeleteOpts.WaitTimeout = None, DeleteOpts.SkipWait = False\<rparr>"

section \<open>The set and the inventory difference\<close>

lemma data_Add: "data (Add s xs) x = (if x \<in> set xs then Some () else data s x)"
proof -
  have "fold (\<lambda>i m. m(i \<mapsto> ())) xs m x = (if x \<in> set xs then Some () else m x)" for m
    by (induction xs arbitrary: m) auto
  then show ?thesis by (simp add: Add_def)
qed

lemma Contains_newSet: "Contains (newSet xs) x \<longleftrightarrow> x \<in> set xs"
  by (simp add: Contains_def newSet_def data_Add)

lemma ItemsToRemove_loop_filter:
  "ItemsToRemove_loop L s items acc =
     acc @ map removalRef (filter (\<lambda>i. \<not> Contains s (ID L i)) items)"
  by (induction items arbitrary: acc) auto

lemma ItemsToRemove_filter:
  "ItemsToRemove L A B =
     map removalRef (filter (\<lambda>i. ID L i \<notin> ID L ` set (Items B)) (Items A))"
  by (simp add: ItemsToRemove_def ItemsToRemove_loop_filter Contains_newSet)

lemma toInventoryItem_removalRef: "toInventoryItem (removalRef i) = i"
  by (simp add: toInventoryItem_def removalRef_def UnstructuredToObjMetadata_def)

lemma map_toInventoryItem_removalRef: "map toInventoryItem (map removalRef xs) = xs"
  by (induction xs) (simp_all add: toInventoryItem_removalRef)

section \<open>The classifier\<close>

lemma stages_loop_filter:
  "stages_loop L objs a b =
     (a @ filter (IsClusterDefinition L) objs, b @ filter (\<lambda>obj. \<not> IsClusterDefinition L obj) objs)"
  by (induction objs arbitrary: a b) auto

lemma getResourceStages_ok:
  "ReadObjects L yaml = Inr decoded \<Longrightarrow> UnstructuredList L decoded = Inr objs \<Longrightarrow>
   getResourceStages L yaml =
     (filter (IsClusterDefinition L) objs, filter (\<lambda>obj. \<not> IsClusterDefinition L obj) objs, None)"
  by (simp add: getResourceStages_def GetObjects_def stages_loop_filter)

lemma getResourceStages_decode_error:
  "ReadObjects L yaml = Inl e \<Longrightarrow>
   getResourceStages L yaml =
     ([], [], Some (Wrapf ''error decoding yaml to unstructured''
                     (Wrapf ''error decoding yaml to unstructured'' e)))"
  by (simp add: getResourceStages_def GetObjects_def)

section \<open>Calls of the resource manager\<close>

lemma log_simps [simp]:
  "calls (log r msg w) = calls w" "cluster (log r msg w) = cluster w"
  by (simp_all add: log_def split: option.splits)

lemma mgrApplyAll_calls:
  "mgrApplyAll r objs w = (e, w') \<Longrightarrow> calls w' = calls w @ [CallApplyAll objs]"
  by (auto simp: mgrApplyAll_def split: prod.splits)

lemma mgrApplyAll_result:
  "mgrApplyAll r objs w = (e, w') \<Longrightarrow>
   calls w' = calls w @ [CallApplyAll objs] \<and> e = fst (ApplyAll (mgr r) objs (cluster w))"
  by (auto simp: mgrApplyAll_def split: prod.splits)

lemma mgrWait_calls:
  "mgrWait r objs wo w = (e, w') \<Longrightarrow> calls w' = calls w @ [CallWait objs wo]"
  by (auto simp: mgrWait_def split: prod.splits)

lemma fst_delete:
  "fst (delete r items dopts w) =
     map_option (Wrapf ''error during deletion'')
       (fst (DeleteAll (mgr r) items \<lparr>PropagationPolicy = DeletePropagationForeground\<rparr> (cluster w)))"
  by (auto simp: delete_def Let_def mgrDeleteAll_def split: prod.splits option.splits)

lemma calls_delete:
  "calls (snd (delete r items dopts w)) =
     calls w @ CallDeleteAll items \<lparr>PropagationPolicy = DeletePropagationForeground\<rparr> #
       (if fst (DeleteAll (mgr r) items \<lparr>PropagationPolicy = DeletePropagationForeground\<rparr> (cluster w)) = None
           \<and> \<not> DeleteOpts.SkipWait dopts
        then [CallWaitForTermination items
                \<lparr>Interval = 2 * Second,
                 Timeout = (case DeleteOpts.WaitTimeout dopts of None \<Rightarrow> DefaultTimeout | Some t \<Rightarrow> t)\<rparr>]
        else [])"
  by (auto simp: delete_def Let_def mgrDeleteAll_def mgrWaitForTermination_def
        split: prod.splits option.splits)

lemma fst_removeItems:
  "fst (removeItems L r p iv opts w) =
     (if ItemsToRemove L p iv = [] then None
      else map_option (Wrapf ''error during deletion'')
             (fst (DeleteAll (mgr r) (ItemsToRemove L p iv)
                     \<lparr>PropagationPolicy = DeletePropagationForeground\<rparr> (cluster w))))"
  by (simp add: removeItems_def Let_def fst_delete)

lemma calls_removeItems:
  "calls (snd (removeItems L r p iv opts w)) =
     calls w @
     (if ItemsToRemove L p iv = [] then []
      else CallDeleteAll (ItemsToRemove L p iv) \<lparr>PropagationPolicy = DeletePropagationForeground\<rparr> #
        (if fst (DeleteAll (mgr r) (ItemsToRemove L p iv)
                   \<lparr>PropagationPolicy = DeletePropagationForeground\<rparr> (cluster w)) = None
            \<and> \<not> ApplyOpts.SkipWait opts
         then [CallWaitForTermination (ItemsToRemove L p iv)
                 \<lparr>Interval = 2 * Second,
                  Timeout = (case ApplyOpts.WaitTimeout opts of None \<Rightarrow> DefaultTimeout | Some t \<Rightarrow> t)\<rparr>]
         else []))"
  by (simp add: removeItems_def Let_def calls_delete)

lemma removeItems_result:
  assumes "removeItems L r p iv opts w = (e, w')"
  shows "e = (if ItemsToRemove L p iv = [] then None
      else map_option (Wrapf ''error during deletion'')
             (fst (DeleteAll (mgr r) (ItemsToRemove L p iv)
                     \<lparr>PropagationPolicy = DeletePropagationForeground\<rparr> (cluster w))))"
    and "calls w' = calls w @
     (if ItemsToRemove L p iv = [] then []
      else CallDeleteAll (ItemsToRemove L p iv) \<lparr>PropagationPolicy = DeletePropagationForeground\<rparr> #
        (if fst (DeleteAll (mgr r) (ItemsToRemove L p iv)
                   \<lparr>PropagationPolicy = DeletePropagationForeground\<rparr> (cluster w)) = None
            \<and> \<not> ApplyOpts.SkipWait opts
         then [CallWaitForTermination (ItemsToRemove L p iv)
                 \<lparr>Interval = 2 * Second,
                  Timeout = (case ApplyOpts.WaitTimeout opts of None \<Rightarrow> DefaultTimeout | Some t \<Rightarrow> t)\<rparr>]
         else []))"
  using fst_removeItems [of L r p iv opts w] calls_removeItems [of L r p iv opts w] assms
  by simp_all

section \<open>The calls of a reconciliation\<close>

lemma plannedPrune_default:
  "ApplyOpts.WaitTimeout opts = None \<Longrightarrow>
   plannedPrune L (opts\<lparr>ApplyOpts.WaitTimeout := Some DefaultTimeout\<rparr>) prev iv =
     plannedPrune L opts prev iv"
  by (cases prev) (simp_all add: plannedPrune_def)

lemma Reconcile_prune_calls:
  assumes "Reconcile_prune L r prev iv opts w = (res, w')"
  shows "\<exists>new. calls w' = calls w @ new \<and> prefix new (plannedPrune L opts prev iv) \<and>
           (snd res = None \<longrightarrow> fst res = iv \<and> new = plannedPrune L opts prev iv)"
proof (cases prev)
  case None
  then show ?thesis using assms by (auto simp: Reconcile_prune_def plannedPrune_def)
next
  case (Some p)
  obtain e w1 where rm: "removeItems L r p iv opts w = (e, w1)"
    by (cases "removeItems L r p iv opts w")
  note facts = removeItems_result [OF rm]
  have w': "w' = w1"
    and res: "res = (case e of
                       Some err \<Rightarrow> (\<lparr>Items = []\<rparr>, Some (Wrapf ''error pruning items'' err))
                     | None \<Rightarrow> (iv, None))"
    using assms Some rm by (auto simp: Reconcile_prune_def split: option.splits)
  show ?thesis
    unfolding w' res plannedPrune_def Some facts(2)
    using facts(1) by (auto split: if_splits)
qed

text \<open>
  Once the stages are classified, the calls of \<^verbatim>\<open>Reconcile\<close> are a prefix of the
  planned calls, and all of them when it returns no error; it then returns the inventory
  of stage one followed by stage two.
\<close>

lemma Reconcile_calls:
  assumes st: "getResourceStages L yaml = (s1, s2, None)"
    and rc: "Reconcile L r yaml opts prev w = (res, w')"
  shows "\<exists>new. calls w' = calls w @ new \<and> prefix new (plannedCalls L opts prev s1 s2) \<and>
           (snd res = None \<longrightarrow>
              fst res = \<lparr>Items = map toInventoryItem (s1 @ s2)\<rparr> \<and>
              new = plannedCalls L opts prev s1 s2)"
  using rc unfolding Reconcile_def st Let_def plannedCalls_def
  by (auto split: prod.splits option.splits if_splits
        dest!: mgrApplyAll_calls mgrWait_calls Reconcile_prune_calls simp: plannedPrune_default)

lemma Reconcile_issued:
  assumes st: "getResourceStages L yaml = (s1, s2, None)"
  shows "prefix (issued w (snd (Reconcile L r yaml opts prev w))) (plannedCalls L opts prev s1 s2)"
    and "snd (fst (Reconcile L r yaml opts prev w)) = None \<Longrightarrow>
         issued w (snd (Reconcile L r yaml opts prev w)) = plannedCalls L opts prev s1 s2"
    and "snd (fst (Reconcile L r yaml opts prev w)) = None \<Longrightarrow>
         fst (fst (Reconcile L r yaml opts prev w)) = \<lparr>Items = map toInventoryItem (s1 @ s2)\<rparr>"
  using Reconcile_calls [OF st, of r opts prev w "fst (Reconcile L r yaml opts prev w)"
      "snd (Reconcile L r yaml opts prev w)"]
  by (auto simp: issued_def)

lemma Reconcile_stages_error:
  "getResourceStages L yaml = (s1, s2, Some e) \<Longrightarrow>
   Reconcile L r yaml opts prev w =
     ((\<lparr>Items = []\<rparr>, Some (Wrapf ''error getting resource stages'' e)), w)"
  by (simp add: Reconcile_def Let_def)

text \<open>When the apply of stage one succeeds, the wait for stage one is issued.\<close>

lemma Reconcile_reaches_wait:
  assumes st: "getResourceStages L yaml = (s1, s2, None)"
    and ok: "fst (ApplyAll (mgr r) s1 (cluster w)) = None"
  shows "2 \<le> length (issued w (snd (Reconcile L r yaml opts prev w)))"
proof -
  obtain res w' where rc: "Reconcile L r yaml opts prev w = (res, w')"
    by (cases "Reconcile L r yaml opts prev w")
  have "\<exists>new. calls w' = calls w @ new \<and> 2 \<le> length new"
    using rc ok unfolding Reconcile_def st Let_def
    by (auto split: prod.splits option.splits if_splits
          dest!: mgrApplyAll_result mgrWait_calls Reconcile_prune_calls)
  then show ?thesis by (auto simp: rc issued_def)
qed

lemma Reconcile_error_empty:
  "Reconcile L r yaml opts prev w = ((iv, Some e), w') \<Longrightarrow> Items iv = []"
  by (auto simp: Reconcile_def Reconcile_prune_def Let_def
        split: prod.splits option.splits if_splits)

lemma issued_same [simp]: "issued w w = []"
  by (simp add: issued_def)

lemma filter_prefix_empty:
  "prefix xs ys \<Longrightarrow> filter P ys = [] \<Longrightarrow> filter P xs = []"
  by (auto simp: prefix_def)

text \<open>Without a previous inventory no call of the pruning phase is issued.\<close>

lemma Reconcile_None_no_deletion:
  "filter isDeletionCall (issued w (snd (Reconcile L r yaml opts None w))) = []"
proof -
  obtain s1 s2 e where st: "getResourceStages L yaml = (s1, s2, e)"
    by (cases "getResourceStages L yaml")
  show ?thesis
  proof (cases e)
    case (Some err)
    then show ?thesis using st by (simp add: Reconcile_stages_error)
  next
    case None
    have "filter isDeletionCall (plannedCalls L opts None s1 s2) = []"
      by (simp add: plannedCalls_def plannedPrune_def)
    with Reconcile_issued(1) [OF st [unfolded None]] show ?thesis
      by (rule filter_prefix_empty)
  qed
qed

lemma removeItems_nothing:
  "ItemsToRemove L p iv = [] \<Longrightarrow> removeItems L r p iv opts w = (None, w)"
  by (simp add: removeItems_def)

lemmas run_defs =
  Reconcile_def Reconcile_prune_def removeItems_def Delete_def delete_def Apply_def
  getResourceStages_def GetObjects_def
  mgrApplyAll_def mgrWait_def mgrDeleteAll_def mgrWaitForTermination_def log_def
  ItemsToRemove_def newSet_def Add_def Contains_def ID_def
  toInventoryItem_def UnstructuredToObjMetadata_def removalRef_def
  exampleLibs_def exampleObject_def exampleManager_def stuckManager_def rejectingManager_def
  exampleReconciler_def emptyWorld_def defaultApplyOpts_def defaultDeleteOpts_def
  issued_def Let_def

lemma applySequence_append: "applySequence (xs @ ys) = applySequence xs @ applySequence ys"
  by (simp add: applySequence_def)

lemma applySequence_prefix: "prefix xs ys \<Longrightarrow> prefix (applySequence xs) (applySequence ys)"
  by (auto simp: prefix_def applySequence_append)

lemma applySequence_plannedPrune: "applySequence (plannedPrune L opts prev iv) = []"
  by (cases prev) (simp_all add: plannedPrune_def applySequence_def)

lemma applySequence_plannedCalls: "applySequence (plannedCalls L opts prev s1 s2) = s1 @ s2"
  using applySequence_plannedPrune [of L opts prev "\<lparr>Items = map toInventoryItem (s1 @ s2)\<rparr>"]
  by (simp add: plannedCalls_def applySequence_def)

lemma waiting_plannedCalls_SkipWait:
  "ApplyOpts.SkipWait opts \<Longrightarrow>
   filter isWaitingCall (plannedCalls L opts prev s1 s2) =
     [CallWait s1 \<lparr>Interval = 2 * Second, Timeout = 30 * Second\<rparr>]"
  by (cases prev) (simp_all add: plannedCalls_def plannedPrune_def)

lemma take2_plannedCalls:
  "take 2 (plannedCalls L opts prev s1 s2) =
     [CallApplyAll s1, CallWait s1 \<lparr>Interval = 2 * Second, Timeout = 30 * Second\<rparr>]"
  by (simp add: plannedCalls_def)

lemma prefix_take: "prefix xs ys \<Longrightarrow> n \<le> length xs \<Longrightarrow> take n xs = take n ys"
  by (auto simp: prefix_def)

section \<open>Claims\<close>

text \<open>
  C1. Deleting a declaration with the wait enabled does not report success when the wait
  for termination fails. The code does not do this: \<^verbatim>\<open>delete\<close> stores the result of
  \<^verbatim>\<open>WaitForTermination\<close> in \<open>err\<close> and returns nil. On the declaration \<open>z\<close> with
  the default options, on a cluster whose deleted resources never terminate, the wait
  is issued, it fails with a timeout, and \<^verbatim>\<open>Delete\<close> returns no error.
\<close>

theorem Delete_drops_termination_error:
  "WaitForTermination stuckManager [exampleObject CHR ''z'']
     \<lparr>Interval = 2 * Second, Timeout = DefaultTimeout\<rparr> () = (Some (Errorf ''timeout''), ())
   \<and> fst (Delete exampleLibs (exampleReconciler stuckManager) ''z'' defaultDeleteOpts emptyWorld) = None
   \<and> calls (snd (Delete exampleLibs (exampleReconciler stuckManager) ''z'' defaultDeleteOpts emptyWorld)) =
       [CallDeleteAll [exampleObject CHR ''z'']
          \<lparr>PropagationPolicy = DeletePropagationForeground\<rparr>,
        CallWaitForTermination [exampleObject CHR ''z'']
          \<lparr>Interval = 2 * Second, Timeout = DefaultTimeout\<rparr>]"
  by (simp add: Delete_def GetObjects_def delete_def mgrDeleteAll_def mgrWaitForTermination_def
      log_def exampleLibs_def exampleReconciler_def stuckManager_def exampleManager_def
      defaultDeleteOpts_def emptyWorld_def Let_def)

text \<open>
  C2. \<^verbatim>\<open>A.ItemsToRemove(B)\<close> is the list of the items of \<open>A\<close>, in the order of \<open>A\<close>,
  whose identity is the identity of no item of \<open>B\<close>, each as a reference carrying the
  item's group, kind, version, namespace and name. It is empty when the two inventories
  have the same set of identities, it is all of \<open>A\<close> when \<open>B\<close> is empty, and no item
  of the result has the identity of an item of \<open>B\<close>.
\<close>

theorem ItemsToRemove_anti_join:
  "ItemsToRemove L A B = map removalRef (filter (\<lambda>i. ID L i \<notin> ID L ` set (Items B)) (Items A))
   \<and> map toInventoryItem (ItemsToRemove L A B) =
       filter (\<lambda>i. ID L i \<notin> ID L ` set (Items B)) (Items A)
   \<and> (ID L ` set (Items A) = ID L ` set (Items B) \<longrightarrow> ItemsToRemove L A B = [])
   \<and> (Items B = [] \<longrightarrow> map toInventoryItem (ItemsToRemove L A B) = Items A)
   \<and> (\<forall>u \<in> set (ItemsToRemove L A B).
         toInventoryItem u \<in> set (Items A) \<and>
         ID L (toInventoryItem u) \<notin> ID L ` set (Items B))"
proof -
  let ?keep = "filter (\<lambda>i. ID L i \<notin> ID L ` set (Items B)) (Items A)"
  have eq: "ItemsToRemove L A B = map removalRef ?keep"
    by (rule ItemsToRemove_filter)
  have recovered: "map toInventoryItem (ItemsToRemove L A B) = ?keep"
    by (simp only: eq map_toInventoryItem_removalRef)
  have same: "ItemsToRemove L A B = []" if "ID L ` set (Items A) = ID L ` set (Items B)"
  proof -
    have "?keep = []" using that by (auto simp: filter_empty_conv)
    then show ?thesis by (simp add: eq)
  qed
  have whole: "map toInventoryItem (ItemsToRemove L A B) = Items A" if "Items B = []"
    using that by (simp add: recovered)
  have members: "toInventoryItem u \<in> set (Items A) \<and> ID L (toInventoryItem u) \<notin> ID L ` set (Items B)"
    if "u \<in> set (ItemsToRemove L A B)" for u
  proof -
    have "toInventoryItem u \<in> set (map toInventoryItem (ItemsToRemove L A B))"
      using that by simp
    then have "toInventoryItem u \<in> set ?keep" by (simp only: recovered)
    then show ?thesis by simp
  qed
  show ?thesis using eq recovered same whole members by blast
qed

theorem ItemsToRemove_anti_join_witness:
  "ItemsToRemove exampleLibs
     \<lparr>Items = [toInventoryItem (exampleObject CHR ''x''), toInventoryItem (exampleObject CHR ''y'')]\<rparr>
     \<lparr>Items = [toInventoryItem (exampleObject CHR ''y''), toInventoryItem (exampleObject CHR ''z'')]\<rparr>
     = [exampleObject CHR ''x'']
   \<and> ItemsToRemove exampleLibs
     \<lparr>Items = [toInventoryItem (exampleObject CHR ''x''), toInventoryItem (exampleObject CHR ''y'')]\<rparr>
     \<lparr>Items = [toInventoryItem (exampleObject CHR ''y''), toInventoryItem (exampleObject CHR ''x'')]\<rparr>
     = []
   \<and> ItemsToRemove exampleLibs
     \<lparr>Items = [toInventoryItem (exampleObject CHR ''x''), toInventoryItem (exampleObject CHR ''y'')]\<rparr>
     \<lparr>Items = []\<rparr>
     = [exampleObject CHR ''x'', exampleObject CHR ''y'']"
  using
    ItemsToRemove_anti_join [of exampleLibs
      "\<lparr>Items = [toInventoryItem (exampleObject CHR ''x''), toInventoryItem (exampleObject CHR ''y'')]\<rparr>"
      "\<lparr>Items = [toInventoryItem (exampleObject CHR ''y''), toInventoryItem (exampleObject CHR ''z'')]\<rparr>"]
    ItemsToRemove_anti_join [of exampleLibs
      "\<lparr>Items = [toInventoryItem (exampleObject CHR ''x''), toInventoryItem (exampleObject CHR ''y'')]\<rparr>"
      "\<lparr>Items = [toInventoryItem (exampleObject CHR ''y''), toInventoryItem (exampleObject CHR ''x'')]\<rparr>"]
    ItemsToRemove_anti_join [of exampleLibs
      "\<lparr>Items = [toInventoryItem (exampleObject CHR ''x''), toInventoryItem (exampleObject CHR ''y'')]\<rparr>"
      "\<lparr>Items = []\<rparr>"]
  by (simp add: exampleLibs_def ID_def toInventoryItem_def UnstructuredToObjMetadata_def
      exampleObject_def removalRef_def)

text \<open>
  C3. The identity of an inventory item is computed from its namespace, name, group and
  kind alone: items that agree on these four and differ in the observed version have
  the same identity, and an item of \<open>A\<close> that agrees on them with an item of \<open>B\<close> is
  not among the items to remove.
\<close>

theorem ID_ignores_version:
  assumes "ObjMetadata a = ObjMetadata b"
  shows "ID L a = ID L b
    \<and> ID L (a\<lparr>GroupVersion := v\<rparr>) = ID L a
    \<and> (b \<in> set (Items B) \<longrightarrow> removalRef a \<notin> set (ItemsToRemove L A B))"
proof -
  have same: "ID L a = ID L b" using assms by (simp add: ID_def)
  have upd: "ID L (a\<lparr>GroupVersion := v\<rparr>) = ID L a" by (simp add: ID_def)
  have out: "removalRef a \<notin> set (ItemsToRemove L A B)" if b: "b \<in> set (Items B)"
  proof
    assume "removalRef a \<in> set (ItemsToRemove L A B)"
    then have "toInventoryItem (removalRef a) \<in> set (map toInventoryItem (ItemsToRemove L A B))"
      by (simp only: set_map) (rule imageI)
    then have "a \<in> set (filter (\<lambda>i. ID L i \<notin> ID L ` set (Items B)) (Items A))"
      by (simp only: ItemsToRemove_filter map_toInventoryItem_removalRef toInventoryItem_removalRef)
    then have "ID L a \<notin> ID L ` set (Items B)" by simp
    with b same show False by auto
  qed
  show ?thesis using same upd out by blast
qed

theorem ID_ignores_version_witness:
  "ID exampleLibs (toInventoryItem (exampleObject CHR ''x'')\<lparr>GroupVersion := ''v2''\<rparr>) =
     ID exampleLibs (toInventoryItem (exampleObject CHR ''x''))
   \<and> ItemsToRemove exampleLibs
       \<lparr>Items = [toInventoryItem (exampleObject CHR ''x'')\<lparr>GroupVersion := ''v2''\<rparr>]\<rparr>
       \<lparr>Items = [toInventoryItem (exampleObject CHR ''x'')]\<rparr> = []"
proof -
  let ?a = "toInventoryItem (exampleObject CHR ''x'')\<lparr>GroupVersion := ''v2''\<rparr>"
  let ?b = "toInventoryItem (exampleObject CHR ''x'')"
  have h: "ObjMetadata ?a = ObjMetadata ?b" by simp
  have b: "?b \<in> set (Items \<lparr>Items = [?b]\<rparr>)" by simp
  note t = ID_ignores_version [OF h, of exampleLibs "''v2''" "\<lparr>Items = [?b]\<rparr>" "\<lparr>Items = [?a]\<rparr>"]
  from t have id: "ID exampleLibs ?a = ID exampleLibs ?b" by blast
  from t b have "removalRef ?a \<notin> set (ItemsToRemove exampleLibs \<lparr>Items = [?a]\<rparr> \<lparr>Items = [?b]\<rparr>)"
    by blast
  then have "ItemsToRemove exampleLibs \<lparr>Items = [?a]\<rparr> \<lparr>Items = [?b]\<rparr> = []"
    by (simp add: ItemsToRemove_filter split: if_splits)
  with id show ?thesis by simp
qed

text \<open>
  C9. When the decoder fails, \<^verbatim>\<open>Reconcile\<close> returns the decode error, wrapped, and the
  empty inventory, and leaves the world as it was: no call reaches the resource manager.
  Whenever \<^verbatim>\<open>Reconcile\<close> returns an error, the inventory it returns is the empty one.
\<close>

theorem Reconcile_error_returns_empty_inventory:
  "(ReadObjects L yaml = Inl e \<longrightarrow>
      Reconcile L r yaml opts prev w =
        ((\<lparr>Items = []\<rparr>,
          Some (Wrapf ''error getting resource stages''
                 (Wrapf ''error decoding yaml to unstructured''
                   (Wrapf ''error decoding yaml to unstructured'' e)))), w))
   \<and> (snd (fst (Reconcile L r yaml opts prev w)) \<noteq> None \<longrightarrow>
        fst (fst (Reconcile L r yaml opts prev w)) = \<lparr>Items = []\<rparr>)"
proof -
  have decode: "Reconcile L r yaml opts prev w =
        ((\<lparr>Items = []\<rparr>,
          Some (Wrapf ''error getting resource stages''
                 (Wrapf ''error decoding yaml to unstructured''
                   (Wrapf ''error decoding yaml to unstructured'' e)))), w)"
    if "ReadObjects L yaml = Inl e"
    by (rule Reconcile_stages_error) (rule getResourceStages_decode_error [OF that])
  have failed: "fst (fst (Reconcile L r yaml opts prev w)) = \<lparr>Items = []\<rparr>"
    if "snd (fst (Reconcile L r yaml opts prev w)) \<noteq> None"
  proof -
    obtain iv err w' where rc: "Reconcile L r yaml opts prev w = ((iv, err), w')"
      by (cases "Reconcile L r yaml opts prev w") auto
    with that obtain x where "err = Some x" by auto
    with rc have "Items iv = []" by (auto dest: Reconcile_error_empty)
    then show ?thesis by (simp add: rc)
  qed
  show ?thesis using decode failed by blast
qed

theorem Reconcile_error_returns_empty_inventory_witness:
  "Reconcile exampleLibs (exampleReconciler exampleManager) ''Nx!'' defaultApplyOpts None emptyWorld =
     ((\<lparr>Items = []\<rparr>,
       Some (Wrapf ''error getting resource stages''
              (Wrapf ''error decoding yaml to unstructured''
                (Wrapf ''error decoding yaml to unstructured'' (Errorf ''bad document''))))),
      emptyWorld)
   \<and> snd (fst (Reconcile exampleLibs (exampleReconciler rejectingManager) ''Nx''
                 defaultApplyOpts None emptyWorld)) =
       Some (Wrapf ''error applying stage one resources'' (Errorf ''rejected''))
   \<and> fst (fst (Reconcile exampleLibs (exampleReconciler rejectingManager) ''Nx''
                 defaultApplyOpts None emptyWorld)) = \<lparr>Items = []\<rparr>"
proof -
  have bad: "ReadObjects exampleLibs ''Nx!'' = Inl (Errorf ''bad document'')"
    by (simp add: exampleLibs_def)
  have err: "snd (fst (Reconcile exampleLibs (exampleReconciler rejectingManager) ''Nx''
                 defaultApplyOpts None emptyWorld)) =
       Some (Wrapf ''error applying stage one resources'' (Errorf ''rejected''))"
    by (simp add: run_defs)
  then have ne: "snd (fst (Reconcile exampleLibs (exampleReconciler rejectingManager) ''Nx''
                 defaultApplyOpts None emptyWorld)) \<noteq> None"
    by simp
  from Reconcile_error_returns_empty_inventory
         [of exampleLibs "''Nx!''" "Errorf ''bad document''" "exampleReconciler exampleManager"
            defaultApplyOpts None emptyWorld] bad
       Reconcile_error_returns_empty_inventory
         [of exampleLibs "''Nx''" "Errorf ''bad document''" "exampleReconciler rejectingManager"
            defaultApplyOpts None emptyWorld] ne err
  show ?thesis by blast
qed

text \<open>
  C10. \<^verbatim>\<open>Apply\<close> is \<^verbatim>\<open>Reconcile\<close> without a previous inventory: the same inventory,
  the same error and the same world, hence the same calls of the resource manager; and
  among these calls there is no delete and no wait for termination.
\<close>

theorem Apply_is_Reconcile_without_previous:
  "Apply L r yaml opts w = Reconcile L r yaml opts None w
   \<and> filter isDeletionCall (issued w (snd (Apply L r yaml opts w))) = []"
  by (simp add: Apply_def Reconcile_None_no_deletion)

text \<open>
  C7. Without a previous inventory \<^verbatim>\<open>Reconcile\<close> issues no delete call. With a previous
  inventory none of whose items is to be removed, \<^verbatim>\<open>removeItems\<close> returns no error and
  leaves the world as it was, and \<^verbatim>\<open>Reconcile\<close> does exactly what it does without a
  previous inventory. The run below reconciles \<open>{x}\<close> and then \<open>{x, y}\<close>.
\<close>

theorem Reconcile_prunes_only_what_is_left:
  "filter isDeletionCall (issued w (snd (Reconcile L r yaml opts None w))) = []
   \<and> (ItemsToRemove L p iv = [] \<longrightarrow> removeItems L r p iv opts w = (None, w))
   \<and> (getResourceStages L yaml = (s1, s2, e) \<and>
       ItemsToRemove L p \<lparr>Items = map toInventoryItem (s1 @ s2)\<rparr> = [] \<longrightarrow>
         Reconcile L r yaml opts (Some p) w = Reconcile L r yaml opts None w)"
proof -
  have same: "Reconcile L r yaml opts (Some p) w = Reconcile L r yaml opts None w"
    if st: "getResourceStages L yaml = (s1, s2, e)"
      and none: "ItemsToRemove L p \<lparr>Items = map toInventoryItem (s1 @ s2)\<rparr> = []"
  proof -
    have none': "ItemsToRemove L p \<lparr>Items = map toInventoryItem s1 @ map toInventoryItem s2\<rparr> = []"
      using none by simp
    have prune: "Reconcile_prune L r (Some p)
          \<lparr>Items = map toInventoryItem s1 @ map toInventoryItem s2\<rparr> o' w' =
        Reconcile_prune L r None \<lparr>Items = map toInventoryItem s1 @ map toInventoryItem s2\<rparr> o' w'"
      for o' w'
      by (simp add: Reconcile_prune_def removeItems_nothing [OF none'])
    show ?thesis
      unfolding Reconcile_def st Let_def
        by (simp add: prune cong: option.case_cong prod.case_cong if_cong)
  qed
  show ?thesis using Reconcile_None_no_deletion removeItems_nothing same by blast
qed

theorem Reconcile_prunes_only_what_is_left_witness:
  "fst (Reconcile exampleLibs (exampleReconciler exampleManager) ''x'' defaultApplyOpts None emptyWorld) =
     (\<lparr>Items = [toInventoryItem (exampleObject CHR ''x'')]\<rparr>, None)
   \<and> fst (Reconcile exampleLibs (exampleReconciler exampleManager) ''xy'' defaultApplyOpts
            (Some \<lparr>Items = [toInventoryItem (exampleObject CHR ''x'')]\<rparr>) emptyWorld) =
     (\<lparr>Items = [toInventoryItem (exampleObject CHR ''x''), toInventoryItem (exampleObject CHR ''y'')]\<rparr>,
      None)
   \<and> filter isDeletionCall
       (issued emptyWorld
          (snd (Reconcile exampleLibs (exampleReconciler exampleManager) ''xy'' defaultApplyOpts
                  (Some \<lparr>Items = [toInventoryItem (exampleObject CHR ''x'')]\<rparr>) emptyWorld))) = []"
proof -
  let ?p = "\<lparr>Items = [toInventoryItem (exampleObject CHR ''x'')]\<rparr>"
  let ?s2 = "[exampleObject CHR ''x'', exampleObject CHR ''y'']"
  have st: "getResourceStages exampleLibs ''xy'' = ([], ?s2, None)"
    by (simp add: getResourceStages_def GetObjects_def exampleLibs_def exampleObject_def)
  have none: "ItemsToRemove exampleLibs ?p \<lparr>Items = map toInventoryItem ([] @ ?s2)\<rparr> = []"
    by (simp add: run_defs)
  note t = Reconcile_prunes_only_what_is_left
             [of emptyWorld exampleLibs "exampleReconciler exampleManager" "''xy''"
                defaultApplyOpts ?p _ "[]" ?s2 None]
  from t st none have same:
    "Reconcile exampleLibs (exampleReconciler exampleManager) ''xy'' defaultApplyOpts (Some ?p) emptyWorld =
     Reconcile exampleLibs (exampleReconciler exampleManager) ''xy'' defaultApplyOpts None emptyWorld"
    by blast
  from t have nodel: "filter isDeletionCall
       (issued emptyWorld
          (snd (Reconcile exampleLibs (exampleReconciler exampleManager) ''xy'' defaultApplyOpts
                  None emptyWorld))) = []"
    by blast
  have first: "fst (Reconcile exampleLibs (exampleReconciler exampleManager) ''x'' defaultApplyOpts None emptyWorld) =
     (\<lparr>Items = [toInventoryItem (exampleObject CHR ''x'')]\<rparr>, None)"
    by (simp add: run_defs)
  have second: "fst (Reconcile exampleLibs (exampleReconciler exampleManager) ''xy'' defaultApplyOpts None emptyWorld) =
     (\<lparr>Items = [toInventoryItem (exampleObject CHR ''x''), toInventoryItem (exampleObject CHR ''y'')]\<rparr>,
      None)"
    by (simp add: run_defs)
  show ?thesis using first second nodel by (simp add: same)
qed

text \<open>
  C4. Whatever the options, once the stages are classified and stage one is applied, the
  second call of \<^verbatim>\<open>Reconcile\<close> is the wait for stage one, with its interval of 2 seconds
  and its timeout of 30 seconds. With \<open>SkipWait\<close> set this is the only waiting call of
  the run: neither the wait for stage two nor the wait for the termination of the pruned
  resources is issued.
\<close>

theorem stage_one_wait_never_skipped:
  assumes st: "getResourceStages L yaml = (s1, s2, None)"
    and ok: "fst (ApplyAll (mgr r) s1 (cluster w)) = None"
  shows "take 2 (issued w (snd (Reconcile L r yaml opts prev w))) =
           [CallApplyAll s1, CallWait s1 \<lparr>Interval = 2 * Second, Timeout = 30 * Second\<rparr>]
    \<and> (ApplyOpts.SkipWait opts \<longrightarrow>
         filter isWaitingCall (issued w (snd (Reconcile L r yaml opts prev w))) =
           [CallWait s1 \<lparr>Interval = 2 * Second, Timeout = 30 * Second\<rparr>])"
proof -
  let ?new = "issued w (snd (Reconcile L r yaml opts prev w))"
  let ?plan = "plannedCalls L opts prev s1 s2"
  let ?wait = "CallWait s1 \<lparr>Interval = 2 * Second, Timeout = 30 * Second\<rparr>"
  have pre: "prefix ?new ?plan" by (rule Reconcile_issued(1) [OF st])
  have len: "2 \<le> length ?new" by (rule Reconcile_reaches_wait [OF st ok])
  have first: "take 2 ?new = [CallApplyAll s1, ?wait]"
    using prefix_take [OF pre len] by (simp only: take2_plannedCalls)
  have only: "filter isWaitingCall ?new = [?wait]" if skip: "ApplyOpts.SkipWait opts"
  proof -
    from pre obtain rest where plan: "?plan = ?new @ rest" by (auto simp: prefix_def)
    have split: "filter isWaitingCall ?new @ filter isWaitingCall rest = [?wait]"
      using waiting_plannedCalls_SkipWait [OF skip, of L prev s1 s2] by (simp add: plan)
    have "?wait \<in> set (take 2 ?new)" by (simp add: first)
    then have "?wait \<in> set ?new" by (rule in_set_takeD)
    moreover have "isWaitingCall ?wait" by simp
    ultimately have "filter isWaitingCall ?new \<noteq> []"
      unfolding filter_empty_conv by blast
    with split show ?thesis by (auto simp: append_eq_Cons_conv)
  qed
  show ?thesis using first only by blast
qed

theorem stage_one_wait_never_skipped_witness:
  "issued emptyWorld
     (snd (Reconcile exampleLibs (exampleReconciler exampleManager) ''xNy''
             \<lparr>ApplyOpts.WaitTimeout = None, ApplyOpts.SkipWait = True\<rparr>
             (Some \<lparr>Items = [toInventoryItem (exampleObject CHR ''z'')]\<rparr>) emptyWorld)) =
     [CallApplyAll [exampleObject CHR ''N''],
      CallWait [exampleObject CHR ''N''] \<lparr>Interval = 2 * Second, Timeout = 30 * Second\<rparr>,
      CallApplyAll [exampleObject CHR ''x'', exampleObject CHR ''y''],
      CallDeleteAll [exampleObject CHR ''z''] \<lparr>PropagationPolicy = DeletePropagationForeground\<rparr>]
   \<and> filter isWaitingCall
       (issued emptyWorld
         (snd (Reconcile exampleLibs (exampleReconciler exampleManager) ''xNy''
                 \<lparr>ApplyOpts.WaitTimeout = None, ApplyOpts.SkipWait = True\<rparr>
                 (Some \<lparr>Items = [toInventoryItem (exampleObject CHR ''z'')]\<rparr>) emptyWorld))) =
     [CallWait [exampleObject CHR ''N''] \<lparr>Interval = 2 * Second, Timeout = 30 * Second\<rparr>]"
proof -
  let ?opts = "\<lparr>ApplyOpts.WaitTimeout = None, ApplyOpts.SkipWait = True\<rparr>"
  let ?s1 = "[exampleObject CHR ''N'']"
  let ?s2 = "[exampleObject CHR ''x'', exampleObject CHR ''y'']"
  have st: "getResourceStages exampleLibs ''xNy'' = (?s1, ?s2, None)"
    by (simp add: getResourceStages_def GetObjects_def exampleLibs_def exampleObject_def)
  have ok: "fst (ApplyAll (mgr (exampleReconciler exampleManager)) ?s1 (cluster emptyWorld)) = None"
    by (simp add: exampleReconciler_def exampleManager_def)
  have skip: "ApplyOpts.SkipWait ?opts" by simp
  have run: "issued emptyWorld
     (snd (Reconcile exampleLibs (exampleReconciler exampleManager) ''xNy'' ?opts
             (Some \<lparr>Items = [toInventoryItem (exampleObject CHR ''z'')]\<rparr>) emptyWorld)) =
     [CallApplyAll ?s1,
      CallWait ?s1 \<lparr>Interval = 2 * Second, Timeout = 30 * Second\<rparr>,
      CallApplyAll ?s2,
      CallDeleteAll [exampleObject CHR ''z''] \<lparr>PropagationPolicy = DeletePropagationForeground\<rparr>]"
    by (simp add: run_defs)
  from stage_one_wait_never_skipped [OF st ok, of ?opts
         "Some \<lparr>Items = [toInventoryItem (exampleObject CHR ''z'')]\<rparr>"] skip run
  show ?thesis by blast
qed

text \<open>
  C5. The classifier splits the decoded and normalised resources into those that are
  cluster definitions and the others, each stage in the order of the declaration. The
  resources \<^verbatim>\<open>Reconcile\<close> applies, in the order it applies them, are a prefix of stage
  one followed by stage two, and all of them when it returns no error.
\<close>

theorem classifier_partitions_in_order:
  assumes dec: "ReadObjects L yaml = Inr decoded"
    and norm: "UnstructuredList L decoded = Inr objs"
  shows "getResourceStages L yaml =
           (filter (IsClusterDefinition L) objs,
            filter (\<lambda>obj. \<not> IsClusterDefinition L obj) objs, None)
    \<and> subseq (filter (IsClusterDefinition L) objs) objs
    \<and> subseq (filter (\<lambda>obj. \<not> IsClusterDefinition L obj) objs) objs
    \<and> mset (filter (IsClusterDefinition L) objs) +
        mset (filter (\<lambda>obj. \<not> IsClusterDefinition L obj) objs) = mset objs
    \<and> prefix (applySequence (issued w (snd (Reconcile L r yaml opts prev w))))
        (filter (IsClusterDefinition L) objs @ filter (\<lambda>obj. \<not> IsClusterDefinition L obj) objs)
    \<and> (snd (fst (Reconcile L r yaml opts prev w)) = None \<longrightarrow>
        applySequence (issued w (snd (Reconcile L r yaml opts prev w))) =
          filter (IsClusterDefinition L) objs @ filter (\<lambda>obj. \<not> IsClusterDefinition L obj) objs)"
proof -
  let ?s1 = "filter (IsClusterDefinition L) objs"
  let ?s2 = "filter (\<lambda>obj. \<not> IsClusterDefinition L obj) objs"
  let ?new = "issued w (snd (Reconcile L r yaml opts prev w))"
  have st: "getResourceStages L yaml = (?s1, ?s2, None)"
    by (rule getResourceStages_ok [OF dec norm])
  have part: "mset ?s1 + mset ?s2 = mset objs"
    by (induction objs) simp_all
  have "prefix (applySequence ?new) (applySequence (plannedCalls L opts prev ?s1 ?s2))"
    by (rule applySequence_prefix) (rule Reconcile_issued(1) [OF st])
  then have pre: "prefix (applySequence ?new) (?s1 @ ?s2)"
    by (simp only: applySequence_plannedCalls)
  have full: "applySequence ?new = ?s1 @ ?s2"
    if "snd (fst (Reconcile L r yaml opts prev w)) = None"
    using Reconcile_issued(2) [OF st that] by (simp only: applySequence_plannedCalls)
  show ?thesis using st part pre full by simp
qed

theorem classifier_partitions_in_order_witness:
  "getResourceStages exampleLibs ''xNy'' =
     ([exampleObject CHR ''N''], [exampleObject CHR ''x'', exampleObject CHR ''y''], None)
   \<and> applySequence
       (issued emptyWorld
         (snd (Reconcile exampleLibs (exampleReconciler exampleManager) ''xNy''
                 defaultApplyOpts None emptyWorld))) =
     [exampleObject CHR ''N'', exampleObject CHR ''x'', exampleObject CHR ''y'']"
proof -
  have dec: "ReadObjects exampleLibs ''xNy'' = Inr (map exampleObject ''xNy'')"
    by (simp add: exampleLibs_def)
  have norm: "UnstructuredList exampleLibs (map exampleObject ''xNy'') = Inr (map exampleObject ''xNy'')"
    by (simp add: exampleLibs_def)
  have good: "snd (fst (Reconcile exampleLibs (exampleReconciler exampleManager) ''xNy''
                 defaultApplyOpts None emptyWorld)) = None"
    by (simp add: run_defs)
  have s1: "filter (IsClusterDefinition exampleLibs) (map exampleObject ''xNy'') =
      [exampleObject CHR ''N'']"
    by (simp add: exampleLibs_def exampleObject_def)
  have s2: "filter (\<lambda>obj. \<not> IsClusterDefinition exampleLibs obj) (map exampleObject ''xNy'') =
      [exampleObject CHR ''x'', exampleObject CHR ''y'']"
    by (simp add: exampleLibs_def exampleObject_def)
  from classifier_partitions_in_order [OF dec norm, of emptyWorld
         "exampleReconciler exampleManager" defaultApplyOpts None] good
  show ?thesis unfolding s1 s2 by simp
qed

text \<open>
  C6, as stated: no two items of the inventory of a reconcile call share group, kind,
  namespace and name. This fails: the declaration \<open>xx\<close> names the ConfigMap \<open>x\<close>
  twice, \<^verbatim>\<open>Reconcile\<close> succeeds on it, and the inventory holds the item twice.
\<close>

theorem Reconcile_inventory_distinct_counterexample:
  "snd (fst (Reconcile exampleLibs (exampleReconciler exampleManager) ''xx''
               defaultApplyOpts None emptyWorld)) = None
   \<and> \<not> distinct (map ObjMetadata
         (Items (fst (fst (Reconcile exampleLibs (exampleReconciler exampleManager) ''xx''
                             defaultApplyOpts None emptyWorld)))))"
  by (simp add: run_defs)

text \<open>
  C6, amended. The inventory a successful reconcile call returns holds one item for each
  declared resource: the items of stage one in declaration order, then the items of
  stage two in declaration order. No two items share namespace, name, group and kind
  exactly when no two declared resources do.
\<close>

theorem Reconcile_inventory_order:
  assumes dec: "ReadObjects L yaml = Inr decoded"
    and norm: "UnstructuredList L decoded = Inr objs"
    and rc: "Reconcile L r yaml opts prev w = ((iv, None), w')"
  shows "Items iv =
           map toInventoryItem (filter (IsClusterDefinition L) objs) @
           map toInventoryItem (filter (\<lambda>obj. \<not> IsClusterDefinition L obj) objs)
    \<and> (distinct (map ObjMetadata (Items iv)) \<longleftrightarrow>
         distinct (map UnstructuredToObjMetadata objs))"
proof -
  let ?s1 = "filter (IsClusterDefinition L) objs"
  let ?s2 = "filter (\<lambda>obj. \<not> IsClusterDefinition L obj) objs"
  have st: "getResourceStages L yaml = (?s1, ?s2, None)"
    by (rule getResourceStages_ok [OF dec norm])
  have "fst (fst (Reconcile L r yaml opts prev w)) = \<lparr>Items = map toInventoryItem (?s1 @ ?s2)\<rparr>"
    by (rule Reconcile_issued(3) [OF st]) (simp add: rc)
  then have items: "Items iv = map toInventoryItem ?s1 @ map toInventoryItem ?s2"
    by (simp add: rc)
  have meta: "map ObjMetadata (map toInventoryItem xs) = map UnstructuredToObjMetadata xs" for xs
    by (simp add: toInventoryItem_def)
  have "mset (?s1 @ ?s2) = mset objs"
    by (induction objs) simp_all
  then have "mset (map UnstructuredToObjMetadata (?s1 @ ?s2)) = mset (map UnstructuredToObjMetadata objs)"
    by (simp only: mset_map)
  then have dist: "distinct (map UnstructuredToObjMetadata (?s1 @ ?s2)) \<longleftrightarrow>
      distinct (map UnstructuredToObjMetadata objs)"
    by (rule mset_eq_imp_distinct_iff)
  have "map ObjMetadata (Items iv) = map ObjMetadata (map toInventoryItem (?s1 @ ?s2))"
    by (simp only: items map_append)
  also have "\<dots> = map UnstructuredToObjMetadata (?s1 @ ?s2)"
    by (rule meta)
  finally have "distinct (map ObjMetadata (Items iv)) \<longleftrightarrow>
      distinct (map UnstructuredToObjMetadata objs)"
    by (simp only: dist)
  with items show ?thesis by (rule conjI)
qed

theorem Reconcile_inventory_order_witness:
  "Items (fst (fst (Reconcile exampleLibs (exampleReconciler exampleManager) ''xNy''
                      defaultApplyOpts None emptyWorld))) =
     [toInventoryItem (exampleObject CHR ''N''), toInventoryItem (exampleObject CHR ''x''),
      toInventoryItem (exampleObject CHR ''y'')]
   \<and> distinct (map ObjMetadata
       (Items (fst (fst (Reconcile exampleLibs (exampleReconciler exampleManager) ''xNy''
                           defaultApplyOpts None emptyWorld)))))"
proof -
  let ?run = "Reconcile exampleLibs (exampleReconciler exampleManager) ''xNy''
                defaultApplyOpts None emptyWorld"
  have dec: "ReadObjects exampleLibs ''xNy'' = Inr (map exampleObject ''xNy'')"
    by (simp add: exampleLibs_def)
  have norm: "UnstructuredList exampleLibs (map exampleObject ''xNy'') = Inr (map exampleObject ''xNy'')"
    by (simp add: exampleLibs_def)
  have good: "snd (fst ?run) = None"
    by (simp add: run_defs)
  then have rc: "?run = ((fst (fst ?run), None), snd ?run)"
    by (simp add: prod_eq_iff)
  have s1: "filter (IsClusterDefinition exampleLibs) (map exampleObject ''xNy'') =
      [exampleObject CHR ''N'']"
    by (simp add: exampleLibs_def exampleObject_def)
  have s2: "filter (\<lambda>obj. \<not> IsClusterDefinition exampleLibs obj) (map exampleObject ''xNy'') =
      [exampleObject CHR ''x'', exampleObject CHR ''y'']"
    by (simp add: exampleLibs_def exampleObject_def)
  have d: "distinct (map UnstructuredToObjMetadata (map exampleObject ''xNy''))"
    by (simp add: UnstructuredToObjMetadata_def exampleObject_def)
  note t = Reconcile_inventory_order [OF dec norm rc, unfolded s1 s2]
  from t have items: "Items (fst (fst ?run)) =
     [toInventoryItem (exampleObject CHR ''N''), toInventoryItem (exampleObject CHR ''x''),
      toInventoryItem (exampleObject CHR ''y'')]"
    by simp
  from t d have "distinct (map ObjMetadata (Items (fst (fst ?run))))"
    by blast
  with items show ?thesis by (rule conjI)
qed

text \<open>
  C8. The wait for stage one is issued with an interval of 2 seconds and a timeout of 30
  seconds whatever the options. When the caller gives no timeout, the calls of every run
  of \<^verbatim>\<open>Reconcile\<close>, failing runs included, are a prefix of the sequence in which the
  wait for stage two and the wait for the termination of pruned resources carry an
  interval of 2 seconds and the default timeout of 5 minutes, and they are the whole
  sequence when the run returns no error. The wait for termination of \<^verbatim>\<open>Delete\<close>
  carries the same interval and default timeout.
\<close>

theorem default_wait_timeouts:
  "(getResourceStages L yaml = (s1, s2, None) \<longrightarrow>
      prefix (take 2 (issued w (snd (Reconcile L r yaml opts prev w))))
        [CallApplyAll s1, CallWait s1 \<lparr>Interval = 2 * Second, Timeout = 30 * Second\<rparr>])
   \<and> (getResourceStages L yaml = (s1, s2, None) \<and> ApplyOpts.WaitTimeout opts = None \<longrightarrow>
      prefix (issued w (snd (Reconcile L r yaml opts prev w)))
        ([CallApplyAll s1, CallWait s1 \<lparr>Interval = 2 * Second, Timeout = 30 * Second\<rparr>,
          CallApplyAll s2]
         @ (if ApplyOpts.SkipWait opts then []
            else [CallWait s2 \<lparr>Interval = 2 * Second, Timeout = 5 * Minute\<rparr>])
         @ (case prev of
              None \<Rightarrow> []
            | Some p \<Rightarrow>
                if ItemsToRemove L p \<lparr>Items = map toInventoryItem (s1 @ s2)\<rparr> = [] then []
                else CallDeleteAll (ItemsToRemove L p \<lparr>Items = map toInventoryItem (s1 @ s2)\<rparr>)
                       \<lparr>PropagationPolicy = DeletePropagationForeground\<rparr> #
                     (if ApplyOpts.SkipWait opts then []
                      else [CallWaitForTermination
                              (ItemsToRemove L p \<lparr>Items = map toInventoryItem (s1 @ s2)\<rparr>)
                              \<lparr>Interval = 2 * Second, Timeout = 5 * Minute\<rparr>]))))
   \<and> (getResourceStages L yaml = (s1, s2, None) \<and> ApplyOpts.WaitTimeout opts = None \<and>
       snd (fst (Reconcile L r yaml opts prev w)) = None \<longrightarrow>
      issued w (snd (Reconcile L r yaml opts prev w)) =
        [CallApplyAll s1, CallWait s1 \<lparr>Interval = 2 * Second, Timeout = 30 * Second\<rparr>,
         CallApplyAll s2]
        @ (if ApplyOpts.SkipWait opts then []
           else [CallWait s2 \<lparr>Interval = 2 * Second, Timeout = 5 * Minute\<rparr>])
        @ (case prev of
             None \<Rightarrow> []
           | Some p \<Rightarrow>
               if ItemsToRemove L p \<lparr>Items = map toInventoryItem (s1 @ s2)\<rparr> = [] then []
               else CallDeleteAll (ItemsToRemove L p \<lparr>Items = map toInventoryItem (s1 @ s2)\<rparr>)
                      \<lparr>PropagationPolicy = DeletePropagationForeground\<rparr> #
                    (if ApplyOpts.SkipWait opts then []
                     else [CallWaitForTermination
                             (ItemsToRemove L p \<lparr>Items = map toInventoryItem (s1 @ s2)\<rparr>)
                             \<lparr>Interval = 2 * Second, Timeout = 5 * Minute\<rparr>])))
   \<and> (ReadObjects L yaml = Inr objs \<and> DeleteOpts.WaitTimeout dopts = None \<longrightarrow>
      issued w (snd (Delete L r yaml dopts w)) =
        CallDeleteAll objs \<lparr>PropagationPolicy = DeletePropagationForeground\<rparr> #
        (if fst (DeleteAll (mgr r) objs \<lparr>PropagationPolicy = DeletePropagationForeground\<rparr>
                   (cluster w)) = None \<and> \<not> DeleteOpts.SkipWait dopts
         then [CallWaitForTermination objs \<lparr>Interval = 2 * Second, Timeout = 5 * Minute\<rparr>]
         else []))"
proof -
  let ?new = "issued w (snd (Reconcile L r yaml opts prev w))"
  let ?seq = "[CallApplyAll s1, CallWait s1 \<lparr>Interval = 2 * Second, Timeout = 30 * Second\<rparr>,
         CallApplyAll s2]
        @ (if ApplyOpts.SkipWait opts then []
           else [CallWait s2 \<lparr>Interval = 2 * Second, Timeout = 5 * Minute\<rparr>])
        @ (case prev of
             None \<Rightarrow> []
           | Some p \<Rightarrow>
               if ItemsToRemove L p \<lparr>Items = map toInventoryItem (s1 @ s2)\<rparr> = [] then []
               else CallDeleteAll (ItemsToRemove L p \<lparr>Items = map toInventoryItem (s1 @ s2)\<rparr>)
                      \<lparr>PropagationPolicy = DeletePropagationForeground\<rparr> #
                    (if ApplyOpts.SkipWait opts then []
                     else [CallWaitForTermination
                             (ItemsToRemove L p \<lparr>Items = map toInventoryItem (s1 @ s2)\<rparr>)
                             \<lparr>Interval = 2 * Second, Timeout = 5 * Minute\<rparr>]))"
  have one: "prefix (take 2 ?new)
        [CallApplyAll s1, CallWait s1 \<lparr>Interval = 2 * Second, Timeout = 30 * Second\<rparr>]"
    if st: "getResourceStages L yaml = (s1, s2, None)"
  proof -
    from Reconcile_issued(1) [OF st, of w r opts prev]
    obtain rest where "plannedCalls L opts prev s1 s2 = ?new @ rest"
      by (auto simp: prefix_def)
    then have "take 2 (plannedCalls L opts prev s1 s2) =
        take 2 ?new @ take (2 - length ?new) rest"
      by simp
    then show ?thesis by (simp only: take2_plannedCalls prefix_def) blast
  qed
  have plan: "plannedCalls L opts prev s1 s2 = ?seq"
    if nt: "ApplyOpts.WaitTimeout opts = None"
    by (cases prev) (simp_all add: plannedCalls_def plannedPrune_def nt DefaultTimeout_def)
  have two: "prefix ?new ?seq"
    if st: "getResourceStages L yaml = (s1, s2, None)"
      and nt: "ApplyOpts.WaitTimeout opts = None"
    using Reconcile_issued(1) [OF st, of w r opts prev] by (simp only: plan [OF nt])
  have three: "?new = ?seq"
    if st: "getResourceStages L yaml = (s1, s2, None)"
      and nt: "ApplyOpts.WaitTimeout opts = None"
      and good: "snd (fst (Reconcile L r yaml opts prev w)) = None"
    using Reconcile_issued(2) [OF st good] by (simp only: plan [OF nt])
  have four: "issued w (snd (Delete L r yaml dopts w)) =
        CallDeleteAll objs \<lparr>PropagationPolicy = DeletePropagationForeground\<rparr> #
        (if fst (DeleteAll (mgr r) objs \<lparr>PropagationPolicy = DeletePropagationForeground\<rparr>
                   (cluster w)) = None \<and> \<not> DeleteOpts.SkipWait dopts
         then [CallWaitForTermination objs \<lparr>Interval = 2 * Second, Timeout = 5 * Minute\<rparr>]
         else [])"
    if dec: "ReadObjects L yaml = Inr objs" and nt: "DeleteOpts.WaitTimeout dopts = None"
  proof -
    have "Delete L r yaml dopts w = delete r objs dopts w"
      by (simp add: Delete_def GetObjects_def dec)
    then show ?thesis
      by (simp add: issued_def calls_delete nt DefaultTimeout_def)
  qed
  show ?thesis using one two three four by blast
qed

theorem default_wait_timeouts_witness:
  "issued emptyWorld
     (snd (Reconcile exampleLibs (exampleReconciler exampleManager) ''xNy'' defaultApplyOpts
             (Some \<lparr>Items = [toInventoryItem (exampleObject CHR ''z'')]\<rparr>) emptyWorld)) =
     [CallApplyAll [exampleObject CHR ''N''],
      CallWait [exampleObject CHR ''N''] \<lparr>Interval = 2 * Second, Timeout = 30 * Second\<rparr>,
      CallApplyAll [exampleObject CHR ''x'', exampleObject CHR ''y''],
      CallWait [exampleObject CHR ''x'', exampleObject CHR ''y'']
        \<lparr>Interval = 2 * Second, Timeout = 5 * Minute\<rparr>,
      CallDeleteAll [exampleObject CHR ''z''] \<lparr>PropagationPolicy = DeletePropagationForeground\<rparr>,
      CallWaitForTermination [exampleObject CHR ''z'']
        \<lparr>Interval = 2 * Second, Timeout = 5 * Minute\<rparr>]
   \<and> issued emptyWorld
       (snd (Delete exampleLibs (exampleReconciler exampleManager) ''z'' defaultDeleteOpts emptyWorld)) =
     [CallDeleteAll [exampleObject CHR ''z''] \<lparr>PropagationPolicy = DeletePropagationForeground\<rparr>,
      CallWaitForTermination [exampleObject CHR ''z'']
        \<lparr>Interval = 2 * Second, Timeout = 5 * Minute\<rparr>]
   \<and> snd (fst (Reconcile exampleLibs (exampleReconciler slowManager) ''xNy'' defaultApplyOpts
               (Some \<lparr>Items = [toInventoryItem (exampleObject CHR ''z'')]\<rparr>) emptyWorld)) =
     Some (Errorf ''timed out waiting for objects to reconcile'')
   \<and> prefix
       (issued emptyWorld
         (snd (Reconcile exampleLibs (exampleReconciler slowManager) ''xNy'' defaultApplyOpts
                 (Some \<lparr>Items = [toInventoryItem (exampleObject CHR ''z'')]\<rparr>) emptyWorld)))
       [CallApplyAll [exampleObject CHR ''N''],
        CallWait [exampleObject CHR ''N''] \<lparr>Interval = 2 * Second, Timeout = 30 * Second\<rparr>,
        CallApplyAll [exampleObject CHR ''x'', exampleObject CHR ''y''],
        CallWait [exampleObject CHR ''x'', exampleObject CHR ''y'']
          \<lparr>Interval = 2 * Second, Timeout = 5 * Minute\<rparr>,
        CallDeleteAll [exampleObject CHR ''z''] \<lparr>PropagationPolicy = DeletePropagationForeground\<rparr>,
        CallWaitForTermination [exampleObject CHR ''z'']
          \<lparr>Interval = 2 * Second, Timeout = 5 * Minute\<rparr>]
   \<and> length
       (issued emptyWorld
         (snd (Reconcile exampleLibs (exampleReconciler slowManager) ''xNy'' defaultApplyOpts
                 (Some \<lparr>Items = [toInventoryItem (exampleObject CHR ''z'')]\<rparr>) emptyWorld))) = 4"
proof -
  let ?s1 = "[exampleObject CHR ''N'']"
  let ?s2 = "[exampleObject CHR ''x'', exampleObject CHR ''y'']"
  let ?prev = "Some \<lparr>Items = [toInventoryItem (exampleObject CHR ''z'')]\<rparr>"
  let ?seq = "[CallApplyAll ?s1, CallWait ?s1 \<lparr>Interval = 2 * Second, Timeout = 30 * Second\<rparr>,
         CallApplyAll ?s2]
        @ (if ApplyOpts.SkipWait defaultApplyOpts then []
           else [CallWait ?s2 \<lparr>Interval = 2 * Second, Timeout = 5 * Minute\<rparr>])
        @ (case ?prev of
             None \<Rightarrow> []
           | Some p \<Rightarrow>
               if ItemsToRemove exampleLibs p \<lparr>Items = map toInventoryItem (?s1 @ ?s2)\<rparr> = [] then []
               else CallDeleteAll (ItemsToRemove exampleLibs p \<lparr>Items = map toInventoryItem (?s1 @ ?s2)\<rparr>)
                      \<lparr>PropagationPolicy = DeletePropagationForeground\<rparr> #
                    (if ApplyOpts.SkipWait defaultApplyOpts then []
                     else [CallWaitForTermination
                             (ItemsToRemove exampleLibs p \<lparr>Items = map toInventoryItem (?s1 @ ?s2)\<rparr>)
                             \<lparr>Interval = 2 * Second, Timeout = 5 * Minute\<rparr>]))"
  let ?full = "[CallApplyAll ?s1,
      CallWait ?s1 \<lparr>Interval = 2 * Second, Timeout = 30 * Second\<rparr>,
      CallApplyAll ?s2,
      CallWait ?s2 \<lparr>Interval = 2 * Second, Timeout = 5 * Minute\<rparr>,
      CallDeleteAll [exampleObject CHR ''z''] \<lparr>PropagationPolicy = DeletePropagationForeground\<rparr>,
      CallWaitForTermination [exampleObject CHR ''z'']
        \<lparr>Interval = 2 * Second, Timeout = 5 * Minute\<rparr>]"
  have st: "getResourceStages exampleLibs ''xNy'' = (?s1, ?s2, None)"
    by (simp add: getResourceStages_def GetObjects_def exampleLibs_def exampleObject_def)
  have nt: "ApplyOpts.WaitTimeout defaultApplyOpts = None"
    and ns: "\<not> ApplyOpts.SkipWait defaultApplyOpts"
    by (simp_all add: defaultApplyOpts_def)
  have good: "snd (fst (Reconcile exampleLibs (exampleReconciler exampleManager) ''xNy''
                 defaultApplyOpts ?prev emptyWorld)) = None"
    by (simp add: run_defs)
  have rm: "ItemsToRemove exampleLibs \<lparr>Items = [toInventoryItem (exampleObject CHR ''z'')]\<rparr>
      \<lparr>Items = map toInventoryItem (?s1 @ ?s2)\<rparr> = [exampleObject CHR ''z'']"
    by (simp add: run_defs)
  have seq: "?seq = ?full"
    using ns rm by simp
  have dec: "ReadObjects exampleLibs ''z'' = Inr [exampleObject CHR ''z'']"
    by (simp add: exampleLibs_def)
  have dnt: "DeleteOpts.WaitTimeout defaultDeleteOpts = None"
    and dns: "\<not> DeleteOpts.SkipWait defaultDeleteOpts"
    by (simp_all add: defaultDeleteOpts_def)
  have dok: "fst (DeleteAll (mgr (exampleReconciler exampleManager)) [exampleObject CHR ''z'']
      \<lparr>PropagationPolicy = DeletePropagationForeground\<rparr> (cluster emptyWorld)) = None"
    by (simp add: exampleReconciler_def exampleManager_def)
  note t1 = default_wait_timeouts [of exampleLibs "''xNy''" ?s1 ?s2 emptyWorld
      "exampleReconciler exampleManager" defaultApplyOpts ?prev]
  note t2 = default_wait_timeouts [of exampleLibs "''z''" _ _ emptyWorld
      "exampleReconciler exampleManager" _ _ "[exampleObject CHR ''z'']" defaultDeleteOpts]
  note t3 = default_wait_timeouts [of exampleLibs "''xNy''" ?s1 ?s2 emptyWorld
      "exampleReconciler slowManager" defaultApplyOpts ?prev]
  from t1 st nt good have "issued emptyWorld
     (snd (Reconcile exampleLibs (exampleReconciler exampleManager) ''xNy'' defaultApplyOpts
             ?prev emptyWorld)) = ?seq"
    by blast
  then have a: "issued emptyWorld
     (snd (Reconcile exampleLibs (exampleReconciler exampleManager) ''xNy'' defaultApplyOpts
             ?prev emptyWorld)) = ?full"
    by (simp only: seq)
  from t2 dec dnt have "issued emptyWorld
       (snd (Delete exampleLibs (exampleReconciler exampleManager) ''z'' defaultDeleteOpts emptyWorld)) =
        CallDeleteAll [exampleObject CHR ''z''] \<lparr>PropagationPolicy = DeletePropagationForeground\<rparr> #
        (if fst (DeleteAll (mgr (exampleReconciler exampleManager)) [exampleObject CHR ''z'']
                   \<lparr>PropagationPolicy = DeletePropagationForeground\<rparr>
                   (cluster emptyWorld)) = None \<and> \<not> DeleteOpts.SkipWait defaultDeleteOpts
         then [CallWaitForTermination [exampleObject CHR ''z'']
                 \<lparr>Interval = 2 * Second, Timeout = 5 * Minute\<rparr>]
         else [])"
    by blast
  then have b: "issued emptyWorld
       (snd (Delete exampleLibs (exampleReconciler exampleManager) ''z'' defaultDeleteOpts emptyWorld)) =
     [CallDeleteAll [exampleObject CHR ''z''] \<lparr>PropagationPolicy = DeletePropagationForeground\<rparr>,
      CallWaitForTermination [exampleObject CHR ''z'']
        \<lparr>Interval = 2 * Second, Timeout = 5 * Minute\<rparr>]"
    using dns dok by simp
  from t3 st nt have "prefix
       (issued emptyWorld
         (snd (Reconcile exampleLibs (exampleReconciler slowManager) ''xNy'' defaultApplyOpts
                 ?prev emptyWorld))) ?seq"
    by blast
  then have c: "prefix
       (issued emptyWorld
         (snd (Reconcile exampleLibs (exampleReconciler slowManager) ''xNy'' defaultApplyOpts
                 ?prev emptyWorld))) ?full"
    by (simp only: seq)
  have d: "snd (fst (Reconcile exampleLibs (exampleReconciler slowManager) ''xNy'' defaultApplyOpts
               ?prev emptyWorld)) =
     Some (Errorf ''timed out waiting for objects to reconcile'')"
    by (simp add: run_defs slowManager_def)
  have e: "length
       (issued emptyWorld
         (snd (Reconcile exampleLibs (exampleReconciler slowManager) ''xNy'' defaultApplyOpts
                 ?prev emptyWorld))) = 4"
    by (simp add: run_defs slowManager_def)
  from a b d c e show ?thesis by blast
qed

end
